theory Spec2Isabelle
  imports Complex_Main "HOL-Library.Multiset"
begin

section \<open>The staking data of a user (useUserStakingData)\<close>

text \<open>
  The composable \<^verbatim>\<open>useUserStakingData(poolAddress)\<close> wires four queries and derives
  values from their results. Every \<^verbatim>\<open>computed(() => e)\<close> of the source is a pure function
  of the values it reads; here each is a HOL function of exactly those values, under the
  name the source gives it. A JavaScript value that may be \<^verbatim>\<open>undefined\<close> is an
  \<open>option\<close>, with \<open>None\<close> for \<^verbatim>\<open>undefined\<close>.
\<close>

subsection \<open>The data of the gauge subgraph\<close>

record UserGuageShare =
  id_share :: string
  gauge_poolId :: string
  balance :: string

record UserLiquidityGauge =
  id_gauge :: "string option"
  poolId :: string
  shares_gauge :: "string list"

record UserGuageSharesResponse =
  gaugeShares :: "UserGuageShare list"
  liquidityGauges :: "UserLiquidityGauge list"

subsection \<open>The result object of a query\<close>

text \<open>
  The source destructures \<^verbatim>\<open>data\<close>, \<^verbatim>\<open>isLoading\<close>, \<^verbatim>\<open>isIdle\<close> and
  \<^verbatim>\<open>isRefetching\<close> from the object a query hook returns. The object has a status, the
  last data (undefined until a fetch has succeeded) and the flag of a fetch in flight;
  the three flags the source reads are functions of those.
\<close>

datatype QueryStatus = Idle | Loading | Error | Success

record 'a QueryResult =
  status :: QueryStatus
  data :: "'a option"
  isFetching :: bool

definition isLoading :: "'a QueryResult \<Rightarrow> bool" where
  "isLoading q = (status q = Loading)"

definition isIdle :: "'a QueryResult \<Rightarrow> bool" where
  "isIdle q = (status q = Idle)"

definition isRefetching :: "'a QueryResult \<Rightarrow> bool" where
  "isRefetching q = (isFetching q \<and> status q \<noteq> Loading)"

subsection \<open>Query arguments\<close>

text \<open>
  \<^verbatim>\<open>const userPools = computed(() => userPoolsResponse.value?.pools || [])\<close>; of a pool
  of the user only its id is read.
\<close>

record UserPool =
  id_userPool :: string

record UserPoolsResponse =
  pools_user :: "UserPool list"

definition userPools :: "UserPoolsResponse option \<Rightarrow> UserPool list" where
  "userPools userPoolsResponse =
     (case userPoolsResponse of None \<Rightarrow> [] | Some r \<Rightarrow> pools_user r)"

definition userPoolIds :: "UserPoolsResponse option \<Rightarrow> string list" where
  "userPoolIds userPoolsResponse = map id_userPool (userPools userPoolsResponse)"

definition isStakingQueryEnabled :: "bool \<Rightarrow> bool" where
  "isStakingQueryEnabled isL2 = (\<not> isL2)"

text \<open>
  The pool address is a string that may be missing. \<^verbatim>\<open>!!v\<close> of a string is false
  for undefined and for the empty string.
\<close>

definition truthy :: "string option \<Rightarrow> bool" where
  "truthy v = (case v of None \<Rightarrow> False | Some s \<Rightarrow> s \<noteq> [])"

definition isStakedSharesQueryEnabled :: "string option \<Rightarrow> bool" where
  "isStakedSharesQueryEnabled poolAddress = (truthy poolAddress \<and> poolAddress \<noteq> Some [])"

text \<open>
  lodash's \<^verbatim>\<open>intersection(array, other)\<close>: the values of the first array that the
  other array includes, each once, in the order of their first occurrence in the first
  array. The loop of the library runs over the first array and appends a value to the
  result when the result does not hold it yet and the other array includes it.
\<close>

fun baseIntersection :: "'a list \<Rightarrow> 'a list \<Rightarrow> 'a list \<Rightarrow> 'a list" where
  "baseIntersection [] other result = result"
| "baseIntersection (v # array) other result =
     (if v \<notin> set result \<and> v \<in> set other
      then baseIntersection array other (result @ [v])
      else baseIntersection array other result)"

definition intersection :: "'a list \<Rightarrow> 'a list \<Rightarrow> 'a list" where
  "intersection array other = baseIntersection array other []"

text \<open>
  \<^verbatim>\<open>intersection(userPoolIds.value, POOLS.Stakable.AllowList)\<close>; the allow-list is a
  constant of the configuration, a parameter here.
\<close>

definition stakeableUserPoolIds :: "string list \<Rightarrow> string list \<Rightarrow> string list" where
  "stakeableUserPoolIds ids allowList = intersection ids allowList"

text \<open>
  The key of the gauge-share query, \<^verbatim>\<open>['staking', 'data', { account, userPoolIds }]\<close>.
  Two keys are the same key when they are equal part by part.
\<close>

datatype QueryKeyPart = KeyString string | KeyAccountPools string "string list"

definition stakingDataKey :: "string \<Rightarrow> string list \<Rightarrow> QueryKeyPart list" where
  "stakingDataKey account ids =
     [KeyString ''staking'', KeyString ''data'', KeyAccountPools account ids]"

text \<open>
  The body of the gauge-share query: the shares of the lower-cased account with a balance
  above zero, and the gauges of the stakeable pools.
\<close>

record GaugeQuery =
  gaugeShares_user :: string
  gaugeShares_balance_gt :: string
  liquidityGauges_poolId_in :: "string list"

definition stakingDataQuery ::
  "(string \<Rightarrow> string) \<Rightarrow> string \<Rightarrow> string list \<Rightarrow> string list \<Rightarrow> GaugeQuery" where
  "stakingDataQuery toLowerCase account ids allowList =
     \<lparr>gaugeShares_user = toLowerCase account,
      gaugeShares_balance_gt = ''0'',
      liquidityGauges_poolId_in = stakeableUserPoolIds ids allowList\<rparr>"

subsection \<open>Computed values\<close>

text \<open>
  \<^verbatim>\<open>stakedSharesResponse.value || '0'\<close>: the default stands for undefined and for the
  empty string, the two falsy values a string reference can hold.
\<close>

definition stakedSharesForProvidedPool :: "string QueryResult \<Rightarrow> string" where
  "stakedSharesForProvidedPool stakedShares =
     (case data stakedShares of
        None \<Rightarrow> ''0''
      | Some s \<Rightarrow> if s = [] then ''0'' else s)"

text \<open>
  \<^verbatim>\<open>if (!stakingData.value?.gaugeShares) return []\<close>: an array is truthy, also when
  empty, so the guard fires only while the response is undefined.
\<close>

definition userGaugeShares :: "UserGuageSharesResponse option \<Rightarrow> UserGuageShare list" where
  "userGaugeShares stakingData =
     (case stakingData of None \<Rightarrow> [] | Some r \<Rightarrow> gaugeShares r)"

definition userLiquidityGauges ::
  "UserGuageSharesResponse option \<Rightarrow> UserLiquidityGauge list" where
  "userLiquidityGauges stakingData =
     (case stakingData of None \<Rightarrow> [] | Some r \<Rightarrow> liquidityGauges r)"

text \<open>
  \<^verbatim>\<open>Object.fromEntries\<close> adds the entries in order; a later entry with a key the object
  already has overwrites its value.
\<close>

definition fromEntries :: "('k \<times> 'v) list \<Rightarrow> ('k \<rightharpoonup> 'v)" where
  "fromEntries entries = foldl (\<lambda>obj (k, v). obj(k \<mapsto> v)) Map.empty entries"

definition stakedSharesMap :: "UserGuageSharesResponse option \<Rightarrow> (string \<rightharpoonup> string)" where
  "stakedSharesMap stakingData =
     fromEntries
       (map (\<lambda>gaugeShare. (gauge_poolId gaugeShare, balance gaugeShare))
         (userGaugeShares stakingData))"

text \<open>
  \<^verbatim>\<open>if (isLoadingUserStakingData.value || !userGaugeShares.value) return []\<close>;
  \<^verbatim>\<open>userGaugeShares.value\<close> is always an array, so its negation is false.
\<close>

definition stakedPoolIds :: "UserGuageSharesResponse QueryResult \<Rightarrow> string list" where
  "stakedPoolIds stakingQuery =
     (if isLoading stakingQuery \<or> False then []
      else map gauge_poolId (userGaugeShares (data stakingQuery)))"

definition isStakedPoolsQueryEnabled :: "UserGuageSharesResponse QueryResult \<Rightarrow> bool" where
  "isStakedPoolsQueryEnabled stakingQuery = (length (stakedPoolIds stakingQuery) > 0)"

subsection \<open>Staked pools\<close>

text \<open>
  A pool of the pool-metadata query: its id, and the rest of its metadata, which this
  composable only hands on. The response of the query is a list of pages of pools.
\<close>

record 'm Pool =
  id_pool :: string
  metadata :: 'm

record 'm PoolsPage =
  pools :: "'m Pool list"

record 'm PoolsResponse =
  pages :: "'m PoolsPage list"

text \<open>
  \<^verbatim>\<open>{ ...pool, shares: getBptBalanceFiatValue(pool, stakedBpt), bpt: stakedBpt }\<close> with
  \<^verbatim>\<open>stakedBpt = stakedSharesMap.value[pool.id]\<close>: a read of a key the object lacks gives
  undefined (pool ids are hexadecimal strings, never the name of a property that every
  object inherits). The valuation function is a parameter.
\<close>

record 'm DecoratedPoolWithShares =
  pool :: "'m Pool"
  shares :: string
  bpt :: "string option"

definition decoratePool ::
  "('m Pool \<Rightarrow> string option \<Rightarrow> string) \<Rightarrow> (string \<rightharpoonup> string) \<Rightarrow> 'm Pool
     \<Rightarrow> 'm DecoratedPoolWithShares" where
  "decoratePool getBptBalanceFiatValue sharesMap p =
     (let stakedBpt = sharesMap (id_pool p)
      in \<lparr>pool = p, shares = getBptBalanceFiatValue p stakedBpt, bpt = stakedBpt\<rparr>)"

text \<open>
  \<^verbatim>\<open>(stakedPoolsResponse.value?.pages[0].pools || []).map(...)\<close>: with no response the
  list is empty; with a response, \<^verbatim>\<open>pages[0]\<close> of an empty page list is undefined and
  the read of its \<^verbatim>\<open>pools\<close> throws a TypeError.
\<close>

datatype failure = PlainError string | InvalidAddress | TransportError | TypeError

definition stakedPools ::
  "('m Pool \<Rightarrow> string option \<Rightarrow> string) \<Rightarrow> UserGuageSharesResponse option
     \<Rightarrow> 'm PoolsResponse option \<Rightarrow> failure + 'm DecoratedPoolWithShares list" where
  "stakedPools getBptBalanceFiatValue stakingData stakedPoolsResponse =
     (case stakedPoolsResponse of
        None \<Rightarrow> Inr []
      | Some r \<Rightarrow>
          (case pages r of
             [] \<Rightarrow> Inl TypeError
           | page0 # _ \<Rightarrow>
               Inr (map (decoratePool getBptBalanceFiatValue (stakedSharesMap stakingData))
                      (pools page0))))"

subsection \<open>The total fiat value\<close>

text \<open>
  The values of the arbitrary-precision decimal library: a finite number, held exactly,
  NaN, or an infinity. Its \<^verbatim>\<open>plus\<close> is exact on finite numbers; NaN absorbs, and the
  sum of the two infinities is NaN.
\<close>

datatype BigNumber = Finite rat | NaN | PosInfinity | NegInfinity

fun plus_bn :: "BigNumber \<Rightarrow> BigNumber \<Rightarrow> BigNumber" where
  "plus_bn NaN _ = NaN"
| "plus_bn _ NaN = NaN"
| "plus_bn PosInfinity NegInfinity = NaN"
| "plus_bn NegInfinity PosInfinity = NaN"
| "plus_bn PosInfinity _ = PosInfinity"
| "plus_bn _ PosInfinity = PosInfinity"
| "plus_bn NegInfinity _ = NegInfinity"
| "plus_bn _ NegInfinity = NegInfinity"
| "plus_bn (Finite a) (Finite b) = Finite (a + b)"

text \<open>
  \<^verbatim>\<open>toString\<close> of the library: fixed for zero and for the three values that are not
  finite; the digits of another finite number depend on the library's configured
  notation and are a parameter.
\<close>

definition toString_bn :: "(rat \<Rightarrow> string) \<Rightarrow> BigNumber \<Rightarrow> string" where
  "toString_bn digits b =
     (case b of
        Finite r \<Rightarrow> if r = 0 then ''0'' else digits r
      | NaN \<Rightarrow> ''NaN''
      | PosInfinity \<Rightarrow> ''Infinity''
      | NegInfinity \<Rightarrow> ''-Infinity'')"

text \<open>
  \<^verbatim>\<open>stakedPools.value.reduce((acc, { shares }) => acc.plus(shares), bnum(0)).toString()\<close>;
  \<^verbatim>\<open>plus\<close> reads its string argument as a number, by the parameter \<open>bnum\<close>.
\<close>

definition totalStakedFiatValue ::
  "(rat \<Rightarrow> string) \<Rightarrow> (string \<Rightarrow> BigNumber) \<Rightarrow> 'm DecoratedPoolWithShares list
     \<Rightarrow> string" where
  "totalStakedFiatValue digits bnum stakedPoolsList =
     toString_bn digits
       (foldl (\<lambda>acc p. plus_bn acc (bnum (shares p))) (Finite 0) stakedPoolsList)"

subsection \<open>The direct read of the staked shares\<close>

text \<open>
  \<^verbatim>\<open>getStakedShares\<close> throws when the pool address is falsy, before any call: a
  \<^verbatim>\<open>new Error(message)\<close>, an error of no class of its own, known by its message. Then it
  normalises the address (which fails on a malformed one), asks for the gauge of the
  pool, reads the balance of the account in it and formats it with 18 decimals. Each
  awaited call may fail. The calls are parameters: the gauge lookup lives in another
  module, and the gauge class of the sources declares no \<^verbatim>\<open>balance\<close> method, so the
  read of the balance is taken as the call from a gauge address and an account to a raw
  integer.
\<close>

definition noPoolAddress :: failure where
  "noPoolAddress = PlainError
     ''Attempted to get staked shares, however useStaking was initialised without a pool address.''"

record Chain =
  getAddress :: "string \<Rightarrow> string option"
  getGaugeAddress :: "string \<Rightarrow> failure + string"
  gaugeBalance :: "string \<Rightarrow> string \<Rightarrow> failure + nat"
  formatUnits :: "nat \<Rightarrow> nat \<Rightarrow> string"

definition getStakedShares :: "Chain \<Rightarrow> string \<Rightarrow> string option \<Rightarrow> failure + string" where
  "getStakedShares chain account poolAddress =
     (case poolAddress of
        None \<Rightarrow> Inl noPoolAddress
      | Some address \<Rightarrow>
          if address = [] then Inl noPoolAddress
          else
            (case getAddress chain address of
               None \<Rightarrow> Inl InvalidAddress
             | Some checksummed \<Rightarrow>
                 (case getGaugeAddress chain checksummed of
                    Inl e \<Rightarrow> Inl e
                  | Inr gaugeAddress \<Rightarrow>
                      (case gaugeBalance chain gaugeAddress account of
                         Inl e \<Rightarrow> Inl e
                       | Inr b \<Rightarrow> Inr (formatUnits chain b 18)))))"

subsection \<open>The queries over time\<close>

text \<open>
  Modelled from the spec: the query executor of the gauge-share query and of the
  pool-metadata query (the hooks \<^verbatim>\<open>useGraphQuery\<close> and \<^verbatim>\<open>usePoolsQuery\<close> are not among
  the sources). A sub-fetch is
  Idle (disabled or not yet triggered), then Loading (in flight, no prior result), then
  Settled (has a value), then Refetching (a new fetch in flight while the prior value is
  still exposed); a failed fetch ends in an error state; a query must not execute when
  disabled. A fetch is triggered (by a key change or by the re-fetch affordance), and a
  fetch in flight resolves with a value or is rejected.
\<close>

datatype 'a FetchEvent = Fetch | Resolve 'a | Reject

definition idleQuery :: "'a QueryResult" where
  "idleQuery = \<lparr>status = Idle, data = None, isFetching = False\<rparr>"

definition queryStep :: "bool \<Rightarrow> 'a QueryResult \<Rightarrow> 'a FetchEvent \<Rightarrow> 'a QueryResult" where
  "queryStep enabled q ev =
     (case ev of
        Fetch \<Rightarrow>
          if \<not> enabled \<or> isFetching q then q
          else if data q = None then q\<lparr>status := Loading, isFetching := True\<rparr>
          else q\<lparr>isFetching := True\<rparr>
      | Resolve v \<Rightarrow>
          if isFetching q then \<lparr>status = Success, data = Some v, isFetching = False\<rparr> else q
      | Reject \<Rightarrow>
          if isFetching q then q\<lparr>status := Error, isFetching := False\<rparr> else q)"

text \<open>
  The staked-shares query is the \<^verbatim>\<open>useQuery\<close> of the query library, with the query
  function \<^verbatim>\<open>() => getStakedShares()\<close> and the option
  \<^verbatim>\<open>enabled: isStakedSharesQueryEnabled\<close>. The library fetches on its own only a query
  that is enabled. The \<^verbatim>\<open>refetch\<close> of the result object, which the composable returns as
  \<^verbatim>\<open>refetchStakedShares\<close>, runs the query function whether the query is enabled or not.
  A fetch that starts while the query holds no data sets the status to loading; a fetch in
  flight settles with the outcome of the query function: success with the value, or the
  error status.
\<close>

datatype UseQueryEvent = AutoFetch | Refetch | Settle

definition startFetch :: "'a QueryResult \<Rightarrow> 'a QueryResult" where
  "startFetch q =
     (if isFetching q then q
      else if data q = None then q\<lparr>status := Loading, isFetching := True\<rparr>
      else q\<lparr>isFetching := True\<rparr>)"

definition useQueryStep ::
  "bool \<Rightarrow> failure + 'a \<Rightarrow> 'a QueryResult \<Rightarrow> UseQueryEvent \<Rightarrow> 'a QueryResult" where
  "useQueryStep enabled queryFn q ev =
     (case ev of
        AutoFetch \<Rightarrow> if enabled then startFetch q else q
      | Refetch \<Rightarrow> startFetch q
      | Settle \<Rightarrow>
          if isFetching q then
            (case queryFn of
               Inr v \<Rightarrow> \<lparr>status = Success, data = Some v, isFetching = False\<rparr>
             | Inl e \<Rightarrow> q\<lparr>status := Error, isFetching := False\<rparr>)
          else q)"

text \<open>
  The three queries of the composable whose options the source sets, each enabled by the
  flag the source passes as its \<^verbatim>\<open>enabled\<close> option. The chain, the account, the
  network tier and the pool address are inputs of the composable.
\<close>

record 'm Aggregator =
  stakingDataQuery_state :: "UserGuageSharesResponse QueryResult"
  stakedSharesQuery_state :: "string QueryResult"
  stakedPoolsQuery_state :: "'m PoolsResponse QueryResult"

datatype 'm QueryEvent =
  OnStakingData "UserGuageSharesResponse FetchEvent"
| OnStakedShares UseQueryEvent
| OnStakedPools "'m PoolsResponse FetchEvent"

definition initialAggregator :: "'m Aggregator" where
  "initialAggregator =
     \<lparr>stakingDataQuery_state = idleQuery,
      stakedSharesQuery_state = idleQuery,
      stakedPoolsQuery_state = idleQuery\<rparr>"

definition aggregatorStep ::
  "Chain \<Rightarrow> string \<Rightarrow> bool \<Rightarrow> string option \<Rightarrow> 'm Aggregator \<Rightarrow> 'm QueryEvent
     \<Rightarrow> 'm Aggregator" where
  "aggregatorStep chain account isL2 poolAddress st ev =
     (case ev of
        OnStakingData e \<Rightarrow>
          st\<lparr>stakingDataQuery_state :=
               queryStep (isStakingQueryEnabled isL2) (stakingDataQuery_state st) e\<rparr>
      | OnStakedShares e \<Rightarrow>
          st\<lparr>stakedSharesQuery_state :=
               useQueryStep (isStakedSharesQueryEnabled poolAddress)
                 (getStakedShares chain account poolAddress) (stakedSharesQuery_state st) e\<rparr>
      | OnStakedPools e \<Rightarrow>
          st\<lparr>stakedPoolsQuery_state :=
               queryStep (isStakedPoolsQueryEnabled (stakingDataQuery_state st))
                 (stakedPoolsQuery_state st) e\<rparr>)"

definition runAggregator ::
  "Chain \<Rightarrow> string \<Rightarrow> bool \<Rightarrow> string option \<Rightarrow> 'm QueryEvent list \<Rightarrow> 'm Aggregator" where
  "runAggregator chain account isL2 poolAddress evs =
     foldl (aggregatorStep chain account isL2 poolAddress) initialAggregator evs"

section \<open>Properties\<close>

subsection \<open>Auxiliary facts\<close>

lemma baseIntersection_set:
  "set (baseIntersection array other result) = set result \<union> (set array \<inter> set other)"
  by (induction array other result rule: baseIntersection.induct) auto

lemma baseIntersection_no_other: "baseIntersection array [] result = result"
  by (induction array "[] :: 'a list" result rule: baseIntersection.induct) auto

lemma fromEntries_snoc: "fromEntries (es @ [(k, v)]) = (fromEntries es)(k \<mapsto> v)"
  by (simp add: fromEntries_def)

lemma fromEntries_map_of: "fromEntries es = map_of (rev es)"
proof (induction es rule: rev_induct)
  case Nil
  show ?case by (simp add: fromEntries_def)
next
  case (snoc e es)
  obtain k v where e: "e = (k, v)" by (cases e)
  show ?case using snoc by (simp add: e fromEntries_snoc)
qed

lemma map_of_find:
  "map_of (map (\<lambda>s. (f s, g s)) xs) k = map_option g (find (\<lambda>s. f s = k) xs)"
  by (induction xs) auto

lemma stakedSharesMap_dom:
  "dom (stakedSharesMap sd) = gauge_poolId ` set (userGaugeShares sd)"
  by (simp add: stakedSharesMap_def fromEntries_map_of dom_map_of_conv_image_fst image_image
      flip: rev_map)

lemma stakedSharesMap_last:
  "stakedSharesMap sd k =
     map_option balance (find (\<lambda>s. gauge_poolId s = k) (rev (userGaugeShares sd)))"
  by (simp add: stakedSharesMap_def fromEntries_map_of map_of_find rev_map)

lemma stakedSharesMap_distinct:
  assumes "distinct (map gauge_poolId (userGaugeShares sd))"
    and "s \<in> set (userGaugeShares sd)"
  shows "stakedSharesMap sd (gauge_poolId s) = Some (balance s)"
proof -
  let ?es = "map (\<lambda>g. (gauge_poolId g, balance g)) (userGaugeShares sd)"
  have "distinct (map fst (rev ?es))"
    using assms(1) by (simp add: rev_map[symmetric] comp_def)
  moreover have "(gauge_poolId s, balance s) \<in> set (rev ?es)"
    using assms(2) by auto
  ultimately have "map_of (rev ?es) (gauge_poolId s) = Some (balance s)"
    by (rule map_of_is_SomeI)
  then show ?thesis by (simp add: stakedSharesMap_def fromEntries_map_of)
qed

lemma plus_bn_left_commute: "plus_bn (plus_bn a b) c = plus_bn (plus_bn a c) b"
  by (cases a; cases b; cases c) simp_all

lemma foldl_plus_finite:
  "(\<forall>p\<in>set ps. f p = Finite (v p)) \<Longrightarrow>
   foldl (\<lambda>acc p. plus_bn acc (f p)) (Finite a) ps = Finite (a + (\<Sum>p\<leftarrow>ps. v p))"
  by (induction ps arbitrary: a) (simp_all add: add.assoc)

lemma foldl_plus_perm:
  assumes "mset ps = mset ps'"
  shows "foldl (\<lambda>acc p. plus_bn acc (f p)) a ps = foldl (\<lambda>acc p. plus_bn acc (f p)) a ps'"
proof -
  have "fold (\<lambda>p acc. plus_bn acc (f p)) ps = fold (\<lambda>p acc. plus_bn acc (f p)) ps'"
    by (rule fold_multiset_equiv) (auto simp: fun_eq_iff plus_bn_left_commute assms)
  then show ?thesis by (simp add: foldl_conv_fold)
qed

lemma plus_bn_NaN_right: "plus_bn a NaN = NaN"
  by (cases a) simp_all

lemma foldl_plus_from_NaN: "foldl (\<lambda>acc p. plus_bn acc (f p)) NaN ps = NaN"
  by (induction ps) simp_all

lemma foldl_plus_NaN:
  "\<exists>p\<in>set ps. f p = NaN \<Longrightarrow> foldl (\<lambda>acc p. plus_bn acc (f p)) a ps = NaN"
proof (induction ps arbitrary: a)
  case Nil
  then show ?case by simp
next
  case (Cons x xs)
  show ?case
  proof (cases "f x = NaN")
    case True
    then show ?thesis by (simp add: plus_bn_NaN_right foldl_plus_from_NaN)
  next
    case False
    with Cons.prems have "\<exists>p\<in>set xs. f p = NaN" by auto
    then show ?thesis by (simp add: Cons.IH)
  qed
qed

lemma queryStep_disabled_idle: "queryStep False idleQuery ev = idleQuery"
  by (cases ev) (simp_all add: queryStep_def idleQuery_def)

lemma stakedPoolIds_idle: "stakedPoolIds idleQuery = []"
  by (simp add: stakedPoolIds_def idleQuery_def isLoading_def userGaugeShares_def)






lemma scaling_layer_idle:
  "isL2 \<Longrightarrow>
   stakingDataQuery_state (runAggregator chain account isL2 poolAddress evs) = idleQuery
   \<and> stakedPoolsQuery_state (runAggregator chain account isL2 poolAddress evs) = idleQuery"
proof (induction evs rule: rev_induct)
  case Nil
  show ?case by (simp add: runAggregator_def initialAggregator_def)
next
  case (snoc ev evs)
  then show ?case
    by (cases ev)
      (simp_all add: runAggregator_def aggregatorStep_def queryStep_disabled_idle
        isStakingQueryEnabled_def isStakedPoolsQueryEnabled_def stakedPoolIds_idle)
qed

subsection \<open>The map of staked shares\<close>

text \<open>
  C1, as the code has it. The keys of \<open>stakedSharesMap\<close> are exactly the pool ids of the
  gauge shares, one entry for each distinct pool id and no other entry. The value of an
  entry is the balance of the last share of the list with that pool id; when no two
  shares of the list have the same pool id, the balance of every share is the value of
  its entry.
\<close>

theorem stakedSharesMap_entries:
  "dom (stakedSharesMap sd) = gauge_poolId ` set (userGaugeShares sd)
   \<and> (\<forall>k. stakedSharesMap sd k =
          map_option balance (find (\<lambda>s. gauge_poolId s = k) (rev (userGaugeShares sd))))
   \<and> (distinct (map gauge_poolId (userGaugeShares sd)) \<longrightarrow>
        (\<forall>s \<in> set (userGaugeShares sd).
           stakedSharesMap sd (gauge_poolId s) = Some (balance s)))"
  using stakedSharesMap_dom stakedSharesMap_last stakedSharesMap_distinct by blast

theorem stakedSharesMap_entries_witness:
  "distinct (map gauge_poolId (userGaugeShares (Some
      \<lparr>gaugeShares =
         [\<lparr>id_share = ''g1'', gauge_poolId = ''A'', balance = ''150.0''\<rparr>,
          \<lparr>id_share = ''g2'', gauge_poolId = ''B'', balance = ''7''\<rparr>],
       liquidityGauges = []\<rparr>)))
   \<and> stakedSharesMap (Some
      \<lparr>gaugeShares =
         [\<lparr>id_share = ''g1'', gauge_poolId = ''A'', balance = ''150.0''\<rparr>,
          \<lparr>id_share = ''g2'', gauge_poolId = ''B'', balance = ''7''\<rparr>],
       liquidityGauges = []\<rparr>) ''A'' = Some ''150.0''
   \<and> dom (stakedSharesMap (Some
      \<lparr>gaugeShares =
         [\<lparr>id_share = ''g1'', gauge_poolId = ''A'', balance = ''150.0''\<rparr>,
          \<lparr>id_share = ''g2'', gauge_poolId = ''B'', balance = ''7''\<rparr>],
       liquidityGauges = []\<rparr>)) = {''A'', ''B''}"
  using stakedSharesMap_entries [of "Some
      \<lparr>gaugeShares =
         [\<lparr>id_share = ''g1'', gauge_poolId = ''A'', balance = ''150.0''\<rparr>,
          \<lparr>id_share = ''g2'', gauge_poolId = ''B'', balance = ''7''\<rparr>],
       liquidityGauges = []\<rparr>"]
  by (simp add: userGaugeShares_def insert_commute)

text \<open>
  Against C1 as stated: with two shares of the same pool id the only entry of the pool
  holds the balance of the second share, so the balance of the first share is the value
  of no entry.
\<close>

theorem stakedSharesMap_duplicate_poolId:
  "stakedSharesMap (Some
      \<lparr>gaugeShares =
         [\<lparr>id_share = ''g1'', gauge_poolId = ''A'', balance = ''1''\<rparr>,
          \<lparr>id_share = ''g2'', gauge_poolId = ''A'', balance = ''2''\<rparr>],
       liquidityGauges = []\<rparr>) ''A'' = Some ''2''
   \<and> stakedSharesMap (Some
      \<lparr>gaugeShares =
         [\<lparr>id_share = ''g1'', gauge_poolId = ''A'', balance = ''1''\<rparr>,
          \<lparr>id_share = ''g2'', gauge_poolId = ''A'', balance = ''2''\<rparr>],
       liquidityGauges = []\<rparr>) ''A'' \<noteq> Some ''1''"
  by (simp add: stakedSharesMap_def userGaugeShares_def fromEntries_def)

subsection \<open>The total fiat value\<close>

text \<open>
  C2. When the \<open>shares\<close> of every staked pool reads as a finite number, the total is the
  string of the exact sum of those numbers; and for every list of staked pools, the
  total of a reordering of the list is the same string. (A \<open>shares\<close> that reads as NaN
  makes the total "NaN", in every order.)
\<close>

theorem totalStakedFiatValue_exact_sum:
  "((\<forall>p\<in>set ps. bnum (shares p) = Finite (v p)) \<longrightarrow>
      totalStakedFiatValue digits bnum ps = toString_bn digits (Finite (\<Sum>p\<leftarrow>ps. v p)))
   \<and> (mset ps = mset ps' \<longrightarrow>
      totalStakedFiatValue digits bnum ps = totalStakedFiatValue digits bnum ps')
   \<and> ((\<exists>p\<in>set ps. bnum (shares p) = NaN) \<longrightarrow>
      totalStakedFiatValue digits bnum ps = ''NaN'')"
  using foldl_plus_finite [of ps "\<lambda>p. bnum (shares p)" v 0]
    foldl_plus_perm [of ps ps' "\<lambda>p. bnum (shares p)" "Finite 0"]
    foldl_plus_NaN [of ps "\<lambda>p. bnum (shares p)" "Finite 0"]
  by (simp add: totalStakedFiatValue_def toString_bn_def)

theorem totalStakedFiatValue_exact_sum_witness:
  "totalStakedFiatValue (\<lambda>r. if r = 15 / 4 then ''3.75'' else ''other'')
      (\<lambda>s. if s = ''1.5'' then Finite (3 / 2) else if s = ''2.25'' then Finite (9 / 4) else NaN)
      [\<lparr>pool = \<lparr>id_pool = ''A'', metadata = ()\<rparr>, shares = ''1.5'', bpt = Some ''10''\<rparr>,
       \<lparr>pool = \<lparr>id_pool = ''B'', metadata = ()\<rparr>, shares = ''2.25'', bpt = Some ''20''\<rparr>]
     = ''3.75''
   \<and> totalStakedFiatValue (\<lambda>r. if r = 15 / 4 then ''3.75'' else ''other'')
      (\<lambda>s. if s = ''1.5'' then Finite (3 / 2) else if s = ''2.25'' then Finite (9 / 4) else NaN)
      [\<lparr>pool = \<lparr>id_pool = ''B'', metadata = ()\<rparr>, shares = ''2.25'', bpt = Some ''20''\<rparr>,
       \<lparr>pool = \<lparr>id_pool = ''A'', metadata = ()\<rparr>, shares = ''1.5'', bpt = Some ''10''\<rparr>]
     = ''3.75''"
  using totalStakedFiatValue_exact_sum
    [of "[\<lparr>pool = \<lparr>id_pool = ''A'', metadata = ()\<rparr>, shares = ''1.5'', bpt = Some ''10''\<rparr>,
          \<lparr>pool = \<lparr>id_pool = ''B'', metadata = ()\<rparr>, shares = ''2.25'', bpt = Some ''20''\<rparr>]"
        "\<lambda>s. if s = ''1.5'' then Finite (3 / 2) else if s = ''2.25'' then Finite (9 / 4) else NaN"
        "\<lambda>p. if shares p = ''1.5'' then 3 / 2 else 9 / 4"
        "\<lambda>r. if r = 15 / 4 then ''3.75'' else ''other''"
        "[\<lparr>pool = \<lparr>id_pool = ''B'', metadata = ()\<rparr>, shares = ''2.25'', bpt = Some ''20''\<rparr>,
          \<lparr>pool = \<lparr>id_pool = ''A'', metadata = ()\<rparr>, shares = ''1.5'', bpt = Some ''10''\<rparr>]"]
  by (auto simp add: toString_bn_def)

subsection \<open>The pool ids of the enrichment query\<close>

text \<open>
  C3. While the gauge-share query is loading, the list of staked pool ids handed to the
  pool-metadata query is empty, whatever data the query holds; and the pool-metadata
  query is enabled exactly when that list is not empty.
\<close>

theorem stakedPoolIds_empty_while_loading:
  "(isLoading stakingQuery \<longrightarrow> stakedPoolIds stakingQuery = [])
   \<and> (isStakedPoolsQueryEnabled stakingQuery \<longleftrightarrow> stakedPoolIds stakingQuery \<noteq> [])"
  by (simp add: stakedPoolIds_def isStakedPoolsQueryEnabled_def)

theorem stakedPoolIds_empty_while_loading_witness:
  "isLoading
     \<lparr>status = Loading,
      data = Some \<lparr>gaugeShares = [\<lparr>id_share = ''g1'', gauge_poolId = ''A'', balance = ''1''\<rparr>],
                   liquidityGauges = []\<rparr>,
      isFetching = True\<rparr>
   \<and> stakedPoolIds
     \<lparr>status = Loading,
      data = Some \<lparr>gaugeShares = [\<lparr>id_share = ''g1'', gauge_poolId = ''A'', balance = ''1''\<rparr>],
                   liquidityGauges = []\<rparr>,
      isFetching = True\<rparr> = []
   \<and> \<not> isStakedPoolsQueryEnabled
     \<lparr>status = Loading,
      data = Some \<lparr>gaugeShares = [\<lparr>id_share = ''g1'', gauge_poolId = ''A'', balance = ''1''\<rparr>],
                   liquidityGauges = []\<rparr>,
      isFetching = True\<rparr>"
  using stakedPoolIds_empty_while_loading [of
     "\<lparr>status = Loading,
      data = Some \<lparr>gaugeShares = [\<lparr>id_share = ''g1'', gauge_poolId = ''A'', balance = ''1''\<rparr>],
                   liquidityGauges = []\<rparr>,
      isFetching = True\<rparr>"]
  by (simp add: isLoading_def)

subsection \<open>The staked shares of the provided pool\<close>

text \<open>
  C4, as the code has it. \<open>stakedSharesForProvidedPool\<close> is the reading the query holds
  when it holds one that is not empty, and the default "0" whenever the query holds no
  reading, whatever the status of the query: not yet settled or failed. The status of
  the query and its fetching flag have no part in the value.
\<close>

theorem stakedSharesForProvidedPool_default:
  "(data q = None \<longrightarrow> stakedSharesForProvidedPool q = ''0'')
   \<and> (\<forall>s. data q = Some s \<and> s \<noteq> [] \<longrightarrow> stakedSharesForProvidedPool q = s)
   \<and> stakedSharesForProvidedPool (q\<lparr>status := st, isFetching := f\<rparr>)
       = stakedSharesForProvidedPool q"
  by (simp add: stakedSharesForProvidedPool_def)

theorem stakedSharesForProvidedPool_default_witness:
  "stakedSharesForProvidedPool \<lparr>status = Idle, data = None, isFetching = False\<rparr> = ''0''
   \<and> stakedSharesForProvidedPool \<lparr>status = Success, data = Some ''42.5'', isFetching = True\<rparr>
       = ''42.5''
   \<and> stakedSharesForProvidedPool \<lparr>status = Error, data = Some ''42.5'', isFetching = False\<rparr>
       = ''42.5''"
  using stakedSharesForProvidedPool_default
      [where q = "\<lparr>status = Idle, data = None, isFetching = False\<rparr>"
         and st = Idle and f = False]
    stakedSharesForProvidedPool_default
      [where q = "\<lparr>status = Success, data = Some ''42.5'', isFetching = True\<rparr>"
         and st = Error and f = False]
  by simp

text \<open>
  Against C4 as stated: for a query whose first read has failed, and which so holds no
  reading, the value is the default "0", the same value as while the first read is in
  flight.
\<close>

theorem stakedSharesForProvidedPool_errored_is_default:
  "stakedSharesForProvidedPool \<lparr>status = Error, data = None, isFetching = False\<rparr> = ''0''
   \<and> stakedSharesForProvidedPool \<lparr>status = Error, data = None, isFetching = False\<rparr>
     = stakedSharesForProvidedPool \<lparr>status = Loading, data = None, isFetching = True\<rparr>"
  by (simp add: stakedSharesForProvidedPool_def)

subsection \<open>The key of the gauge-share query\<close>

text \<open>
  C5, as the code has it. The key of the gauge-share query holds the account and the
  ids of all the pools of the user, not filtered by the allow-list: two keys are the same
  exactly when the accounts and the lists of pool ids are the same. So the key changes
  whenever the stakeable pool ids change, and it changes as well when only the pools
  outside the allow-list change.
\<close>

theorem stakingDataKey_account_and_userPoolIds:
  "(stakingDataKey account ids = stakingDataKey account' ids'
      \<longleftrightarrow> account = account' \<and> ids = ids')
   \<and> (stakeableUserPoolIds ids allowList \<noteq> stakeableUserPoolIds ids' allowList \<longrightarrow>
        stakingDataKey account ids \<noteq> stakingDataKey account' ids')"
  by (auto simp: stakingDataKey_def)

theorem stakingDataKey_account_and_userPoolIds_witness:
  "stakeableUserPoolIds [''A'', ''B''] [''A'', ''C''] \<noteq> stakeableUserPoolIds [''C'', ''B''] [''A'', ''C'']
   \<and> stakingDataKey ''0xabc'' [''A'', ''B''] \<noteq> stakingDataKey ''0xabc'' [''C'', ''B'']"
  using stakingDataKey_account_and_userPoolIds
    [of "''0xabc''" "[''A'', ''B'']" "''0xabc''" "[''C'', ''B'']" "[''A'', ''C'']"]
  by (simp add: stakeableUserPoolIds_def intersection_def)

text \<open>
  Against C5 as stated: the user leaves pool B and enters pool D, both outside the
  allow-list. The stakeable pool ids are the same list, and the key is another key.
\<close>

theorem stakingDataKey_changes_with_unstakeable_pool:
  "stakeableUserPoolIds [''A'', ''B''] [''A'', ''C'']
     = stakeableUserPoolIds [''A'', ''D''] [''A'', ''C'']
   \<and> stakingDataKey ''0xabc'' [''A'', ''B''] \<noteq> stakingDataKey ''0xabc'' [''A'', ''D'']"
  by (simp add: stakeableUserPoolIds_def intersection_def stakingDataKey_def)

subsection \<open>The direct read without a pool address\<close>




subsection \<open>The allow-list filter\<close>

text \<open>
  C7. The stakeable pool ids of the user are among the pool ids of the user and among
  the ids of the allow-list; with an empty allow-list there are none.
\<close>

theorem stakeableUserPoolIds_subset:
  "set (stakeableUserPoolIds ids allowList) \<subseteq> set ids
   \<and> set (stakeableUserPoolIds ids allowList) \<subseteq> set allowList
   \<and> stakeableUserPoolIds ids [] = []"
  by (simp add: stakeableUserPoolIds_def intersection_def baseIntersection_set
      baseIntersection_no_other)

theorem stakeableUserPoolIds_subset_witness:
  "stakeableUserPoolIds [''A'', ''B'', ''A''] [''A'', ''C''] = [''A'']
   \<and> set (stakeableUserPoolIds [''A'', ''B'', ''A''] [''A'', ''C'']) \<subseteq> set [''A'', ''C'']"
  using stakeableUserPoolIds_subset [of "[''A'', ''B'', ''A'']" "[''A'', ''C'']"]
  by (simp add: stakeableUserPoolIds_def intersection_def)

subsection \<open>A scaling-layer network\<close>

text \<open>
  C8. On a scaling-layer network the gauge-share query is not enabled, and under every
  sequence of query events it stays idle; the map of staked shares is then empty and the
  total fiat value is "0".
\<close>

theorem scaling_layer_no_staking:
  "isL2 \<Longrightarrow>
     \<not> isStakingQueryEnabled isL2
     \<and> isIdle (stakingDataQuery_state (runAggregator chain account isL2 poolAddress evs))
     \<and> stakedSharesMap (data (stakingDataQuery_state (runAggregator chain account isL2 poolAddress evs)))
         = Map.empty
     \<and> map_sum id (totalStakedFiatValue digits bnum)
         (stakedPools getBptBalanceFiatValue
           (data (stakingDataQuery_state (runAggregator chain account isL2 poolAddress evs)))
           (data (stakedPoolsQuery_state (runAggregator chain account isL2 poolAddress evs)))) = Inr ''0''"
  using scaling_layer_idle [of isL2 chain account poolAddress evs]
  by (simp add: isStakingQueryEnabled_def isIdle_def idleQuery_def stakedSharesMap_def
      userGaugeShares_def fromEntries_def stakedPools_def totalStakedFiatValue_def
      toString_bn_def)

theorem scaling_layer_no_staking_witness:
  "isIdle (stakingDataQuery_state
     (runAggregator
               \<lparr>getAddress = Some, getGaugeAddress = Inr,
                gaugeBalance = (\<lambda>gauge account. Inr 5),
                formatUnits = (\<lambda>b decimals. ''5'')\<rparr>
               ''0xabc'' True (Some ''0xpool'')
        [OnStakingData Fetch,
         OnStakingData (Resolve \<lparr>gaugeShares =
            [\<lparr>id_share = ''g1'', gauge_poolId = ''A'', balance = ''1''\<rparr>], liquidityGauges = []\<rparr>),
         OnStakedPools Fetch,
         OnStakedPools (Resolve \<lparr>pages = [\<lparr>pools = [\<lparr>id_pool = ''A'', metadata = ()\<rparr>]\<rparr>]\<rparr>)]))
   \<and> map_sum id (totalStakedFiatValue (\<lambda>r. ''other'') (\<lambda>s. NaN))
       (stakedPools (\<lambda>p b. ''NaN'')
          (data (stakingDataQuery_state
            (runAggregator
               \<lparr>getAddress = Some, getGaugeAddress = Inr,
                gaugeBalance = (\<lambda>gauge account. Inr 5),
                formatUnits = (\<lambda>b decimals. ''5'')\<rparr>
               ''0xabc'' True (Some ''0xpool'')
              [OnStakingData Fetch,
               OnStakingData (Resolve \<lparr>gaugeShares =
                  [\<lparr>id_share = ''g1'', gauge_poolId = ''A'', balance = ''1''\<rparr>], liquidityGauges = []\<rparr>),
               OnStakedPools Fetch,
               OnStakedPools (Resolve \<lparr>pages = [\<lparr>pools = [\<lparr>id_pool = ''A'', metadata = ()\<rparr>]\<rparr>]\<rparr>)])))
          (data (stakedPoolsQuery_state
            (runAggregator
               \<lparr>getAddress = Some, getGaugeAddress = Inr,
                gaugeBalance = (\<lambda>gauge account. Inr 5),
                formatUnits = (\<lambda>b decimals. ''5'')\<rparr>
               ''0xabc'' True (Some ''0xpool'')
              [OnStakingData Fetch,
               OnStakingData (Resolve \<lparr>gaugeShares =
                  [\<lparr>id_share = ''g1'', gauge_poolId = ''A'', balance = ''1''\<rparr>], liquidityGauges = []\<rparr>),
               OnStakedPools Fetch,
               OnStakedPools (Resolve \<lparr>pages = [\<lparr>pools = [\<lparr>id_pool = ''A'', metadata = ()\<rparr>]\<rparr>]\<rparr>)]))))
     = Inr ''0''"
  using scaling_layer_no_staking
    [of True
        "\<lparr>getAddress = Some, getGaugeAddress = Inr,
                gaugeBalance = (\<lambda>gauge account. Inr 5),
                formatUnits = (\<lambda>b decimals. ''5'')\<rparr>"
        "''0xabc''"
        "Some ''0xpool''"
        "[OnStakingData Fetch,
          OnStakingData (Resolve \<lparr>gaugeShares =
            [\<lparr>id_share = ''g1'', gauge_poolId = ''A'', balance = ''1''\<rparr>], liquidityGauges = []\<rparr>),
          OnStakedPools Fetch,
          OnStakedPools (Resolve \<lparr>pages = [\<lparr>pools = [\<lparr>id_pool = ''A'', metadata = ()\<rparr>]\<rparr>]\<rparr>)]"
        "\<lambda>r. ''other''" "\<lambda>s. NaN"
        "\<lambda>p b. ''NaN''"]
  by simp

subsection \<open>The staked pools\<close>

text \<open>
  C9. With no response of the pool-metadata query the list of staked pools is empty.
  With a response, the staked pools are the pools of its first page, each decorated, in
  their order: the later pages have no part in the result, and a pool that is only on a
  later page is not among the staked pools.
\<close>

theorem stakedPools_first_page_only:
  "stakedPools fiat sd None = Inr []
   \<and> stakedPools fiat sd (Some \<lparr>pages = page0 # later\<rparr>)
       = stakedPools fiat sd (Some \<lparr>pages = [page0]\<rparr>)
   \<and> (\<exists>ds. stakedPools fiat sd (Some \<lparr>pages = page0 # later\<rparr>) = Inr ds
         \<and> map pool ds = pools page0
         \<and> (\<forall>p \<in> set (concat (map pools later)).
              p \<notin> set (pools page0) \<longrightarrow> p \<notin> pool ` set ds))"
  by (auto simp: stakedPools_def decoratePool_def comp_def Let_def)

theorem stakedPools_first_page_only_witness:
  "stakedPools (\<lambda>p b. ''1'') None
     (Some \<lparr>pages = [\<lparr>pools = [\<lparr>id_pool = ''A'', metadata = ()\<rparr>]\<rparr>,
                      \<lparr>pools = [\<lparr>id_pool = ''B'', metadata = ()\<rparr>]\<rparr>]\<rparr>)
   = Inr [\<lparr>pool = \<lparr>id_pool = ''A'', metadata = ()\<rparr>, shares = ''1'', bpt = None\<rparr>]"
  using stakedPools_first_page_only
    [of "\<lambda>p b. ''1''" None "\<lparr>pools = [\<lparr>id_pool = ''A'', metadata = ()\<rparr>]\<rparr>"
        "[\<lparr>pools = [\<lparr>id_pool = ''B'', metadata = ()\<rparr>]\<rparr>]"]
  by (simp add: stakedPools_def decoratePool_def stakedSharesMap_def userGaugeShares_def
      fromEntries_def)

text \<open>
  C10. A pool of the first page whose id is no key of the map of staked shares is kept
  in the list of staked pools: no pool is left out, and the entry of that pool has an
  undefined \<open>bpt\<close> and the \<open>shares\<close> that the valuation function gives for the undefined
  balance.
\<close>

theorem stakedPools_unknown_pool_undefined_bpt:
  "pages r = page0 # later \<Longrightarrow> p \<in> set (pools page0) \<Longrightarrow>
   id_pool p \<notin> dom (stakedSharesMap sd) \<Longrightarrow>
   \<exists>ds. stakedPools fiat sd (Some r) = Inr ds
      \<and> length ds = length (pools page0)
      \<and> \<lparr>pool = p, shares = fiat p None, bpt = None\<rparr> \<in> set ds"
  by (auto simp: stakedPools_def decoratePool_def image_iff domIff intro!: bexI[of _ p])

theorem stakedPools_unknown_pool_undefined_bpt_witness:
  "''B'' \<notin> dom (stakedSharesMap (Some
      \<lparr>gaugeShares = [\<lparr>id_share = ''g1'', gauge_poolId = ''A'', balance = ''150.0''\<rparr>],
       liquidityGauges = []\<rparr>))
   \<and> stakedPools (\<lambda>p b. case b of None \<Rightarrow> ''NaN'' | Some s \<Rightarrow> s)
      (Some \<lparr>gaugeShares = [\<lparr>id_share = ''g1'', gauge_poolId = ''A'', balance = ''150.0''\<rparr>],
             liquidityGauges = []\<rparr>)
      (Some \<lparr>pages = [\<lparr>pools = [\<lparr>id_pool = ''A'', metadata = ()\<rparr>,
                                \<lparr>id_pool = ''B'', metadata = ()\<rparr>]\<rparr>]\<rparr>)
    = Inr [\<lparr>pool = \<lparr>id_pool = ''A'', metadata = ()\<rparr>, shares = ''150.0'', bpt = Some ''150.0''\<rparr>,
           \<lparr>pool = \<lparr>id_pool = ''B'', metadata = ()\<rparr>, shares = ''NaN'', bpt = None\<rparr>]"
  using stakedPools_unknown_pool_undefined_bpt
    [of "\<lparr>pages = [\<lparr>pools = [\<lparr>id_pool = ''A'', metadata = ()\<rparr>,
                              \<lparr>id_pool = ''B'', metadata = ()\<rparr>]\<rparr>]\<rparr>"
        "\<lparr>pools = [\<lparr>id_pool = ''A'', metadata = ()\<rparr>, \<lparr>id_pool = ''B'', metadata = ()\<rparr>]\<rparr>"
        "[]" "\<lparr>id_pool = ''B'', metadata = ()\<rparr>"
        "Some \<lparr>gaugeShares = [\<lparr>id_share = ''g1'', gauge_poolId = ''A'', balance = ''150.0''\<rparr>],
               liquidityGauges = []\<rparr>"
        "\<lambda>p b. case b of None \<Rightarrow> ''NaN'' | Some s \<Rightarrow> s"]
  by (simp add: stakedPools_def decoratePool_def stakedSharesMap_def userGaugeShares_def
      fromEntries_def)

end
